theory Spec2Isabelle
  imports Main
begin

section \<open>Overview\<close>

text \<open>
  The authentication layer of the application, embedded function by function: the token
  store and the HTTP client wrapper of the api-client module, in its revision for the
  Directus CMS (the one that exports \<open>setRefreshToken\<close>, \<open>getRefreshToken\<close> and
  \<open>clearAuthTokens\<close>, which the auth service imports), and the auth service of
  \<open>src/lib/auth.ts\<close>.

  An asynchronous function is a function from the state before the call to its result
  and the state after it; a \<open>throw\<close> or a rejected promise is the left summand of the
  result. The state is the contents of \<open>localStorage\<close> and the list of requests handed
  to \<open>fetch\<close>, so that "no request is issued" is a statement about that list.
  Everything outside the code (environment variables, \<open>window\<close>, the platform's
  \<open>JSON.parse\<close> and \<open>URL\<close>, the network) is a field of a record the functions take
  as their first argument. Calls do not interleave.
\<close>

section \<open>JavaScript values\<close>

text \<open>
  The auth service handles whatever the CMS sends: the TypeScript interfaces
  (\<open>DirectusAuthResponse\<close>, \<open>DirectusUserResponse\<close>, \<open>DirectusErrorResponse\<close>) are
  erased at run time, and the code itself guards with \<open>?.\<close> and \<open>typeof\<close>. Values are
  therefore modelled untyped, as the results of \<open>JSON.parse\<close> plus \<open>undefined\<close>.
  Numbers are taken to be integers below \<open>10^21\<close> in magnitude, which ToString prints
  with all their digits; an object is the list of its own properties.
\<close>

datatype jsval =
    JUndefined
  | JNull
  | JBool bool
  | JNum int
  | JStr string
  | JArr "jsval list"
  | JObj "(string \<times> jsval) list"

text \<open>
  What a \<open>throw\<close> carries. \<open>Error m\<close> is any \<open>Error\<close> object without a \<open>status\<close> property
  (\<open>new Error(m)\<close>, and the platform's \<open>TypeError\<close>, \<open>SyntaxError\<close>); \<open>ApiError m st txt d\<close>
  is the object \<open>handleResponse\<close> builds and types with the interface \<open>ApiError\<close>: a plain
  \<open>Error\<close> with message \<open>m\<close> and the added properties \<open>status\<close>, \<open>statusText\<close> and \<open>data\<close>; \<open>NonError v\<close> is a thrown
  value that is no \<open>Error\<close> object.
\<close>

datatype js_error =
    Error (message: string)
  | ApiError (message: string) (err_status: nat) (err_statusText: string) (data: jsval)
  | NonError jsval

text \<open>ToBoolean.\<close>

fun truthy :: "jsval \<Rightarrow> bool" where
  "truthy JUndefined = False"
| "truthy JNull = False"
| "truthy (JBool b) = b"
| "truthy (JNum n) = (n \<noteq> 0)"
| "truthy (JStr s) = (s \<noteq> [])"
| "truthy (JArr xs) = True"
| "truthy (JObj kvs) = True"

text \<open>\<open>localStorage.getItem\<close> and \<open>process.env.X\<close> give a string or nothing (\<open>null\<close>,
  \<open>undefined\<close>); \<open>if (x)\<close> on such a value holds for a non-empty string only.\<close>

fun truthy_opt :: "string option \<Rightarrow> bool" where
  "truthy_opt None = False"
| "truthy_opt (Some s) = (s \<noteq> [])"

fun nullish :: "jsval \<Rightarrow> bool" where
  "nullish JUndefined = True"
| "nullish JNull = True"
| "nullish v = False"

text \<open>Decimal digits of a number, for ToString.\<close>

fun digit_char :: "nat \<Rightarrow> char" where
  "digit_char n = (''0123456789'' ! (n mod 10))"

fun dec_nat :: "nat \<Rightarrow> string" where
  "dec_nat n = (if n < 10 then [digit_char n] else dec_nat (n div 10) @ [digit_char n])"

definition dec_int :: "int \<Rightarrow> string" where
  "dec_int i = (if i < 0 then CHR ''-'' # dec_nat (nat (- i)) else dec_nat (nat i))"

fun join_comma :: "string list \<Rightarrow> string" where
  "join_comma [] = []"
| "join_comma [s] = s"
| "join_comma (s # t # ts) = s @ '','' @ join_comma (t # ts)"

text \<open>
  ToString: \<open>String(v)\<close>, the message of \<open>new Error(v)\<close> and the value
  \<open>localStorage.setItem\<close> stores. An array is its elements joined by commas, \<open>null\<close> and
  \<open>undefined\<close> elements giving the empty string; a plain object is \<open>[object Object]\<close>.
\<close>

fun js_ToString :: "jsval \<Rightarrow> string" where
  "js_ToString JUndefined = ''undefined''"
| "js_ToString JNull = ''null''"
| "js_ToString (JBool b) = (if b then ''true'' else ''false'')"
| "js_ToString (JNum n) = dec_int n"
| "js_ToString (JStr s) = s"
| "js_ToString (JArr xs) = join_comma (map (\<lambda>x. if nullish x then [] else js_ToString x) xs)"
| "js_ToString (JObj kvs) = ''[object Object]''"

text \<open>
  Property reads. \<open>get_prop v name\<close> is \<open>v.name\<close> on a value that is neither \<open>null\<close> nor
  \<open>undefined\<close>: an own property of an object, \<open>length\<close> of an array or a string, and
  \<open>undefined\<close> otherwise (the names the source reads, \<open>data\<close>, \<open>errors\<close>, \<open>message\<close>,
  \<open>access_token\<close>, ..., are no array indices and no prototype properties).
  \<open>read_member\<close> is the plain read, which throws a \<open>TypeError\<close> on \<open>null\<close> and \<open>undefined\<close>;
  \<open>opt_member\<close> is the read after \<open>?.\<close>.
\<close>

fun get_prop :: "jsval \<Rightarrow> string \<Rightarrow> jsval" where
  "get_prop (JObj kvs) name = (case map_of kvs name of None \<Rightarrow> JUndefined | Some v \<Rightarrow> v)"
| "get_prop (JArr xs) name = (if name = ''length'' then JNum (int (length xs)) else JUndefined)"
| "get_prop (JStr s) name = (if name = ''length'' then JNum (int (length s)) else JUndefined)"
| "get_prop v name = JUndefined"

definition cannot_read :: "jsval \<Rightarrow> string \<Rightarrow> js_error" where
  "cannot_read v name =
     Error (''Cannot read properties of '' @ js_ToString v @ '' (reading '' @ [CHR 0x27] @ name @ [CHR 0x27] @ '')'')"

definition read_member :: "jsval \<Rightarrow> string \<Rightarrow> js_error + jsval" where
  "read_member v name = (if nullish v then Inl (cannot_read v name) else Inr (get_prop v name))"

definition opt_member :: "jsval \<Rightarrow> string \<Rightarrow> jsval" where
  "opt_member v name = (if nullish v then JUndefined else get_prop v name)"

text \<open>\<open>v[0]\<close> on a value that is neither \<open>null\<close> nor \<open>undefined\<close>, and \<open>v?.[0]\<close>.\<close>

fun index0 :: "jsval \<Rightarrow> jsval" where
  "index0 (JArr []) = JUndefined"
| "index0 (JArr (x # xs)) = x"
| "index0 (JStr []) = JUndefined"
| "index0 (JStr (c # cs)) = JStr [c]"
| "index0 (JObj kvs) = (case map_of kvs ''0'' of None \<Rightarrow> JUndefined | Some v \<Rightarrow> v)"
| "index0 v = JUndefined"

definition opt_index0 :: "jsval \<Rightarrow> jsval" where
  "opt_index0 v = (if nullish v then JUndefined else index0 v)"

text \<open>\<open>new Error(v)\<close>: the message is ToString of the argument, and empty for \<open>undefined\<close>.\<close>

definition new_Error :: "jsval \<Rightarrow> js_error" where
  "new_Error v = Error (if v = JUndefined then [] else js_ToString v)"

section \<open>The platform and the environment\<close>

text \<open>An HTTP request as \<open>fetch\<close> receives it; the body is the value given to
  \<open>JSON.stringify\<close>.\<close>

record request =
  url :: string
  req_method :: string
  headers :: "(string \<times> string) list"
  req_body :: "jsval option"

text \<open>
  A \<open>Response\<close> object. \<open>body\<close> is the text of the body, \<open>None\<close> for a null body;
  \<open>bodyUsed\<close> records that the body stream has been read: the Fetch standard lets
  \<open>json()\<close> and \<open>text()\<close> read a body once, and rejects a second read with a \<open>TypeError\<close>.
\<close>

record response =
  status :: nat
  statusText :: string
  content_type :: "string option"
  body :: "string option"
  bodyUsed :: bool

datatype fetch_result = Resolved response | Rejected js_error

text \<open>
  Everything the code reads from outside: whether \<open>window\<close> is defined (a browser, not
  server-side rendering), whether touching \<open>localStorage\<close> throws (storage disabled),
  the environment variables, the platform's \<open>JSON.parse\<close> (\<open>None\<close> when it throws),
  \<open>new URL(endpoint, base)\<close> (\<open>None\<close> when it throws), the numeric comparison of a string
  with 0, and the network: what \<open>fetch\<close> settles with, given the requests sent before.
\<close>

record world =
  window_defined :: bool
  localStorage_throws :: bool
  NEXT_PUBLIC_DIRECTUS_URL :: "string option"
  NEXT_PUBLIC_API_BASE_URL :: "string option"
  NEXT_PUBLIC_API_KEY :: "string option"
  JSON_parse :: "string \<Rightarrow> jsval option"
  new_URL :: "string \<Rightarrow> string \<Rightarrow> string option"
  string_gt_zero :: "string \<Rightarrow> bool"
  net :: "request list \<Rightarrow> request \<Rightarrow> fetch_result"

text \<open>The mutable part: the contents of \<open>localStorage\<close> and the requests sent so far.\<close>

record runtime =
  localStorage :: "string \<Rightarrow> string option"
  requests :: "request list"

section \<open>Token store (api-client)\<close>

abbreviation access_key :: string where
  "access_key \<equiv> ''directus_access_token''"

abbreviation refresh_key :: string where
  "refresh_key \<equiv> ''directus_refresh_token''"

definition setAuthToken :: "world \<Rightarrow> string \<Rightarrow> runtime \<Rightarrow> runtime" where
  "setAuthToken w token s =
     (if window_defined w then
        (if localStorage_throws w then s
         else s\<lparr>localStorage := (localStorage s)(access_key \<mapsto> token)\<rparr>)
      else s)"

definition setRefreshToken :: "world \<Rightarrow> string \<Rightarrow> runtime \<Rightarrow> runtime" where
  "setRefreshToken w token s =
     (if window_defined w then
        (if localStorage_throws w then s
         else s\<lparr>localStorage := (localStorage s)(refresh_key \<mapsto> token)\<rparr>)
      else s)"

definition getAuthToken :: "world \<Rightarrow> runtime \<Rightarrow> string option" where
  "getAuthToken w s =
     (if \<not> window_defined w then None
      else if localStorage_throws w then None
      else localStorage s access_key)"

definition getRefreshToken :: "world \<Rightarrow> runtime \<Rightarrow> string option" where
  "getRefreshToken w s =
     (if \<not> window_defined w then None
      else if localStorage_throws w then None
      else localStorage s refresh_key)"

definition clearAuthTokens :: "world \<Rightarrow> runtime \<Rightarrow> runtime" where
  "clearAuthTokens w s =
     (if window_defined w then
        (if localStorage_throws w then s
         else s\<lparr>localStorage := ((localStorage s)(access_key := None))(refresh_key := None)\<rparr>)
      else s)"

section \<open>HTTP client wrapper (api-client)\<close>

definition strip_trailing_slash :: "string \<Rightarrow> string" where
  "strip_trailing_slash u = (if u \<noteq> [] \<and> last u = CHR ''/'' then butlast u else u)"

definition base_url_unset :: js_error where
  "base_url_unset =
     Error (''NEXT_PUBLIC_DIRECTUS_URL is not set. Please set it in your .env.local file (local) or environment variables (production).''
            @ [CHR 0x0A] @ ''Example: NEXT_PUBLIC_DIRECTUS_URL=https://cms.explorerelite.com'')"

definition getApiBaseUrl :: "world \<Rightarrow> js_error + string" where
  "getApiBaseUrl w =
     (let directusUrl = NEXT_PUBLIC_DIRECTUS_URL w;
          baseUrl = (if truthy_opt directusUrl then directusUrl else NEXT_PUBLIC_API_BASE_URL w)
      in case baseUrl of
           None \<Rightarrow> Inl base_url_unset
         | Some u \<Rightarrow> if u = [] then Inl base_url_unset else Inr (strip_trailing_slash u))"

definition getStoredAuthToken :: "world \<Rightarrow> runtime \<Rightarrow> string option" where
  "getStoredAuthToken w s =
     (if \<not> window_defined w then None
      else if localStorage_throws w then None
      else localStorage s access_key)"

definition getDefaultHeaders :: "world \<Rightarrow> runtime \<Rightarrow> (string \<times> string) list" where
  "getDefaultHeaders w s =
     [(''Content-Type'', ''application/json'')]
     @ (case getStoredAuthToken w s of
          None \<Rightarrow> []
        | Some token \<Rightarrow> if token = [] then [] else [(''Authorization'', ''Bearer '' @ token)])
     @ (case NEXT_PUBLIC_API_KEY w of
          None \<Rightarrow> []
        | Some k \<Rightarrow> if window_defined w \<and> k \<noteq> [] then [(''X-API-Key'', k)] else [])"

text \<open>\<open>buildUrl\<close> for a call without query parameters, as every call of the auth service is.\<close>

definition buildUrl :: "world \<Rightarrow> string \<Rightarrow> js_error + string" where
  "buildUrl w endpoint =
     (case getApiBaseUrl w of
        Inl e \<Rightarrow> Inl e
      | Inr baseUrl \<Rightarrow>
          (case new_URL w endpoint baseUrl of
             None \<Rightarrow> Inl (Error ''Invalid URL'')
           | Some u \<Rightarrow> Inr u))"

text \<open>
  The body methods of a \<open>Response\<close>. Both first check that the body is usable (a body
  that is not null and has been read is not), then read it to the end, which marks it
  used; \<open>json()\<close> then parses the text and rejects with a \<open>SyntaxError\<close> when it is no
  JSON. A null body reads as the empty text. The wording of the two platform errors
  differs between engines.
\<close>

definition unusable :: "response \<Rightarrow> bool" where
  "unusable r = (body r \<noteq> None \<and> bodyUsed r)"

definition body_text :: "response \<Rightarrow> string" where
  "body_text r = (case body r of None \<Rightarrow> [] | Some b \<Rightarrow> b)"

definition body_already_read :: js_error where
  "body_already_read = Error ''Body is unusable: Body has already been read''"

definition not_valid_JSON :: js_error where
  "not_valid_JSON = Error ''Unexpected token in JSON''"

definition response_json :: "world \<Rightarrow> response \<Rightarrow> (js_error + jsval) \<times> response" where
  "response_json w r =
     (if unusable r then (Inl body_already_read, r)
      else (case JSON_parse w (body_text r) of
              None \<Rightarrow> Inl not_valid_JSON
            | Some v \<Rightarrow> Inr v,
            r\<lparr>bodyUsed := True\<rparr>))"

definition response_text :: "response \<Rightarrow> (js_error + string) \<times> response" where
  "response_text r =
     (if unusable r then (Inl body_already_read, r)
      else (Inr (body_text r), r\<lparr>bodyUsed := True\<rparr>))"

definition ok :: "response \<Rightarrow> bool" where
  "ok r = (200 \<le> status r \<and> status r \<le> 299)"

fun starts_with :: "string \<Rightarrow> string \<Rightarrow> bool" where
  "starts_with s [] = True"
| "starts_with [] (c # p) = False"
| "starts_with (a # s) (c # p) = (a = c \<and> starts_with s p)"

fun str_includes :: "string \<Rightarrow> string \<Rightarrow> bool" where
  "str_includes [] p = (p = [])"
| "str_includes (a # s) p = (starts_with (a # s) p \<or> str_includes s p)"

definition handleResponse :: "world \<Rightarrow> response \<Rightarrow> js_error + jsval" where
  "handleResponse w response =
     (if \<not> ok response then
        (case response_json w response of
           (Inr d, r1) \<Rightarrow>
             Inl (ApiError (''API Error: '' @ statusText response) (status response)
                    (statusText response) d)
         | (Inl _, r1) \<Rightarrow>
             (case response_text r1 of
                (Inr t, r2) \<Rightarrow>
                  Inl (ApiError (''API Error: '' @ statusText response) (status response)
                         (statusText response) (JStr t))
              | (Inl e, r2) \<Rightarrow> Inl e))
      else
        (case content_type response of
           None \<Rightarrow> map_sum id JStr (fst (response_text response))
         | Some contentType \<Rightarrow>
             if contentType \<noteq> [] \<and> str_includes contentType ''application/json''
             then fst (response_json w response)
             else map_sum id JStr (fst (response_text response))))"

text \<open>\<open>fetch\<close> sends the request and settles with what the network gives; a response
  arrives with its body unread.\<close>

definition fetch :: "world \<Rightarrow> request \<Rightarrow> runtime \<Rightarrow> fetch_result \<times> runtime" where
  "fetch w req s =
     (case net w (requests s) req of
        Resolved r \<Rightarrow> Resolved (r\<lparr>bodyUsed := False\<rparr>)
      | Rejected e \<Rightarrow> Rejected e,
      s\<lparr>requests := requests s @ [req]\<rparr>)"

text \<open>
  \<open>apiClient\<close> for a call with a method and an optional body and no other options.
  \<open>buildUrl\<close> runs before the \<open>try\<close>. The \<open>catch\<close> sees a rejection of \<open>fetch\<close>: an error
  with a \<open>status\<close> property is thrown again as it is, any other is wrapped.
  \<open>handleResponse\<close> is returned without \<open>await\<close>, so what it throws reaches the caller
  as it is.
\<close>

definition apiClient ::
  "world \<Rightarrow> string \<Rightarrow> string \<Rightarrow> jsval \<Rightarrow> runtime \<Rightarrow> (js_error + jsval) \<times> runtime" where
  "apiClient w endpoint meth payload s =
     (case buildUrl w endpoint of
        Inl e \<Rightarrow> (Inl e, s)
      | Inr u \<Rightarrow>
          (let config = \<lparr>url = u, req_method = meth, headers = getDefaultHeaders w s,
                         req_body = (if truthy payload then Some payload else None)\<rparr>
           in case fetch w config s of
                (Rejected error, s') \<Rightarrow>
                  (Inl (case error of
                          ApiError m st txt d \<Rightarrow> error
                        | Error m \<Rightarrow> Error (''Network error: '' @ m)
                        | NonError v \<Rightarrow> Error ''Network error: Unknown error''),
                   s')
              | (Resolved response, s') \<Rightarrow> (handleResponse w response, s')))"

definition api_get :: "world \<Rightarrow> string \<Rightarrow> runtime \<Rightarrow> (js_error + jsval) \<times> runtime" where
  "api_get w endpoint s = apiClient w endpoint ''GET'' JUndefined s"

definition api_post ::
  "world \<Rightarrow> string \<Rightarrow> jsval \<Rightarrow> runtime \<Rightarrow> (js_error + jsval) \<times> runtime" where
  "api_post w endpoint payload s = apiClient w endpoint ''POST'' payload s"

section \<open>Auth service (auth)\<close>

record LoginCredentials =
  email :: string
  password :: string

record AuthUser =
  user_id :: jsval
  user_email :: jsval
  firstName :: jsval
  lastName :: jsval
  role :: jsval
  user_status :: jsval

text \<open>
  api-client declares \<open>ApiError\<close> as an interface and exports it with \<open>export type\<close>,
  so the name the auth service imports has no value at run time, and the object
  \<open>handleResponse\<close> throws is a plain \<open>Error\<close> in any case. Evaluating
  \<open>error instanceof ApiError\<close> therefore throws a \<open>TypeError\<close>, whatever the error is,
  and never gives true. The wording of the \<open>TypeError\<close> differs between engines.
\<close>

definition instanceof_not_callable :: js_error where
  "instanceof_not_callable =
     Error (''Right-hand side of '' @ [CHR 0x27] @ ''instanceof'' @ [CHR 0x27] @ '' is not callable'')"

definition instanceof_ApiError :: "js_error \<Rightarrow> js_error + bool" where
  "instanceof_ApiError error = Inl instanceof_not_callable"

fun instanceof_Error :: "js_error \<Rightarrow> bool" where
  "instanceof_Error (NonError v) = False"
| "instanceof_Error e = True"

text \<open>\<open>v > 0\<close>: the value is converted to a number first; \<open>undefined\<close> and a plain object
  give \<open>NaN\<close>, an array is converted through its string.\<close>

fun js_gt_zero :: "world \<Rightarrow> jsval \<Rightarrow> bool" where
  "js_gt_zero w JUndefined = False"
| "js_gt_zero w JNull = False"
| "js_gt_zero w (JBool b) = b"
| "js_gt_zero w (JNum n) = (0 < n)"
| "js_gt_zero w (JStr s) = string_gt_zero w s"
| "js_gt_zero w (JArr xs) = string_gt_zero w (js_ToString (JArr xs))"
| "js_gt_zero w (JObj kvs) = False"

text \<open>\<open>typeof v === 'object' && v !== null\<close>.\<close>

fun is_object :: "jsval \<Rightarrow> bool" where
  "is_object (JArr xs) = True"
| "is_object (JObj kvs) = True"
| "is_object v = False"

text \<open>
  \<open>extractErrorMessage\<close>, statement by statement. Its first statement is the
  \<open>instanceof\<close> test, so the function throws before any of its \<open>return\<close> statements,
  which are kept as the source has them.
\<close>

definition extractErrorMessage :: "world \<Rightarrow> js_error \<Rightarrow> js_error + jsval" where
  "extractErrorMessage w error =
     (case instanceof_ApiError error of
        Inl e \<Rightarrow> Inl e
      | Inr is_api_error \<Rightarrow>
          if is_api_error then
            (let errorData = data error;
                 errors = opt_member errorData ''errors''
             in if truthy errors \<and> js_gt_zero w (get_prop errors ''length'')
                then read_member (index0 errors) ''message''
                else if is_object errorData \<and> truthy (get_prop errorData ''message'')
                then Inr (JStr (js_ToString (get_prop errorData ''message'')))
                else if err_status error = 401 then Inr (JStr ''Invalid email or password'')
                else if err_status error = 403 then Inr (JStr ''Access forbidden'')
                else if err_status error = 404 then Inr (JStr ''Endpoint not found'')
                else if err_status error = 422
                then Inr (JStr ''Validation error. Please check your input.'')
                else if err_status error = 500
                then Inr (JStr ''Server error. Please try again later.'')
                else Inr (JStr (if err_statusText error \<noteq> [] then err_statusText error
                                else ''An error occurred'')))
          else if instanceof_Error error then Inr (JStr (message error))
          else Inr (JStr ''An unexpected error occurred''))"

text \<open>The \<open>catch\<close> blocks of \<open>login\<close> and \<open>refreshToken\<close>:
  \<open>throw new Error(extractErrorMessage(error))\<close>, where an exception of
  \<open>extractErrorMessage\<close> is what gets thrown.\<close>

definition rethrow_normalized :: "world \<Rightarrow> js_error \<Rightarrow> js_error" where
  "rethrow_normalized w error =
     (case extractErrorMessage w error of
        Inl e \<Rightarrow> e
      | Inr errorMessage \<Rightarrow> new_Error errorMessage)"

text \<open>The object literal \<open>{id: r.data.id, email: r.data.email, firstName:
  r.data.first_name, ...}\<close> that \<open>login\<close> and \<open>getCurrentUser\<close> return.\<close>

definition authUser_of :: "jsval \<Rightarrow> js_error + AuthUser" where
  "authUser_of r =
     (case read_member r ''data'' of
        Inl e \<Rightarrow> Inl e
      | Inr d \<Rightarrow>
          (case read_member d ''id'' of
             Inl e \<Rightarrow> Inl e
           | Inr i \<Rightarrow>
               Inr \<lparr>user_id = i, user_email = get_prop d ''email'',
                    firstName = get_prop d ''first_name'', lastName = get_prop d ''last_name'',
                    role = get_prop d ''role'', user_status = get_prop d ''status''\<rparr>))"

text \<open>\<open>if (r.data?.access_token) setAuthToken(r.data.access_token)\<close> and the same for the
  refresh token, as \<open>login\<close> and \<open>refreshToken\<close> do after a successful response.\<close>

definition store_tokens :: "world \<Rightarrow> jsval \<Rightarrow> runtime \<Rightarrow> js_error + runtime" where
  "store_tokens w r s =
     (case read_member r ''data'' of
        Inl e \<Rightarrow> Inl e
      | Inr d \<Rightarrow>
          (let s1 = (if truthy (opt_member d ''access_token'')
                     then setAuthToken w (js_ToString (get_prop d ''access_token'')) s else s);
               s2 = (if truthy (opt_member d ''refresh_token'')
                     then setRefreshToken w (js_ToString (get_prop d ''refresh_token'')) s1 else s1)
           in Inr s2))"

definition login_request :: "LoginCredentials \<Rightarrow> jsval" where
  "login_request credentials =
     JObj [(''email'', JStr (email credentials)), (''password'', JStr (password credentials))]"

text \<open>The \<open>try\<close> block of \<open>login\<close>.\<close>

definition login_try ::
  "world \<Rightarrow> LoginCredentials \<Rightarrow> runtime \<Rightarrow> (js_error + AuthUser) \<times> runtime" where
  "login_try w credentials s =
     (case api_post w ''/auth/login'' (login_request credentials) s of
        (Inl e, s1) \<Rightarrow> (Inl e, s1)
      | (Inr response, s1) \<Rightarrow>
          (case store_tokens w response s1 of
             Inl e \<Rightarrow> (Inl e, s1)
           | Inr s2 \<Rightarrow>
               (case api_get w ''/users/me'' s2 of
                  (Inl e, s3) \<Rightarrow> (Inl e, s3)
                | (Inr userResponse, s3) \<Rightarrow> (authUser_of userResponse, s3))))"

definition login ::
  "world \<Rightarrow> LoginCredentials \<Rightarrow> runtime \<Rightarrow> (js_error + AuthUser) \<times> runtime" where
  "login w credentials s =
     (case login_try w credentials s of
        (Inr user, s') \<Rightarrow> (Inr user, s')
      | (Inl error, s') \<Rightarrow> (Inl (rethrow_normalized w error), s'))"

definition logout :: "world \<Rightarrow> runtime \<Rightarrow> runtime" where
  "logout w s = clearAuthTokens w s"

text \<open>The \<open>try\<close> block of \<open>refreshToken\<close>, which calls \<open>fetch\<close> itself.\<close>

definition refreshToken_try ::
  "world \<Rightarrow> string \<Rightarrow> runtime \<Rightarrow> (js_error + jsval) \<times> runtime" where
  "refreshToken_try w refreshTokenValue s =
     (case NEXT_PUBLIC_DIRECTUS_URL w of
        None \<Rightarrow> (Inl (Error ''Directus URL not configured''), s)
      | Some directusUrl \<Rightarrow>
          if directusUrl = [] then (Inl (Error ''Directus URL not configured''), s)
          else
            (let baseUrl = strip_trailing_slash directusUrl;
                 config = \<lparr>url = baseUrl @ ''/auth/refresh'', req_method = ''POST'',
                            headers = [(''Content-Type'', ''application/json'')],
                            req_body = Some (JObj [(''refresh_token'', JStr refreshTokenValue)])\<rparr>
             in case fetch w config s of
                  (Rejected error, s1) \<Rightarrow> (Inl error, s1)
                | (Resolved response, s1) \<Rightarrow>
                    if \<not> ok response then
                      (let errorData = (case fst (response_json w response) of
                                          Inl e \<Rightarrow> JObj []
                                        | Inr v \<Rightarrow> v)
                       in case read_member errorData ''errors'' of
                            Inl e \<Rightarrow> (Inl e, s1)
                          | Inr errors \<Rightarrow>
                              (let m = opt_member (opt_index0 errors) ''message''
                               in (Inl (new_Error (if truthy m then m
                                                   else JStr ''Failed to refresh token'')), s1)))
                    else
                      (case fst (response_json w response) of
                         Inl e \<Rightarrow> (Inl e, s1)
                       | Inr result \<Rightarrow>
                           (case store_tokens w result s1 of
                              Inl e \<Rightarrow> (Inl e, s1)
                            | Inr s2 \<Rightarrow>
                                (case read_member (get_prop result ''data'') ''access_token'' of
                                   Inl e \<Rightarrow> (Inl e, s2)
                                 | Inr t \<Rightarrow> (Inr t, s2))))))"

definition refreshToken :: "world \<Rightarrow> runtime \<Rightarrow> (js_error + jsval) \<times> runtime" where
  "refreshToken w s =
     (case getRefreshToken w s of
        None \<Rightarrow> (Inl (Error ''No refresh token available''), s)
      | Some refreshTokenValue \<Rightarrow>
          if refreshTokenValue = [] then (Inl (Error ''No refresh token available''), s)
          else
            (case refreshToken_try w refreshTokenValue s of
               (Inr t, s') \<Rightarrow> (Inr t, s')
             | (Inl error, s') \<Rightarrow> (Inl (rethrow_normalized w error), clearAuthTokens w s')))"

text \<open>The \<open>try\<close> block of \<open>getCurrentUser\<close>.\<close>

definition getCurrentUser_try ::
  "world \<Rightarrow> runtime \<Rightarrow> (js_error + AuthUser) \<times> runtime" where
  "getCurrentUser_try w s =
     (case api_get w ''/users/me'' s of
        (Inl e, s1) \<Rightarrow> (Inl e, s1)
      | (Inr response, s1) \<Rightarrow> (authUser_of response, s1))"

definition getCurrentUser ::
  "world \<Rightarrow> runtime \<Rightarrow> (js_error + AuthUser option) \<times> runtime" where
  "getCurrentUser w s =
     (if \<not> truthy_opt (getAuthToken w s) then (Inr None, s)
      else
        (case getCurrentUser_try w s of
           (Inr user, s') \<Rightarrow> (Inr (Some user), s')
         | (Inl error, s') \<Rightarrow>
             (case instanceof_ApiError error of
                Inl e \<Rightarrow> (Inl e, s')
              | Inr is_api_error \<Rightarrow>
                  (Inr None,
                   if is_api_error \<and> err_status error = 401
                   then clearAuthTokens w s' else s'))))"

definition isAuthenticated :: "world \<Rightarrow> runtime \<Rightarrow> bool" where
  "isAuthenticated w s = (getAuthToken w s \<noteq> None)"

section \<open>Concrete worlds\<close>

text \<open>
  A small world to run the code in: a \<open>JSON.parse\<close> that knows the bodies below (written
  without their double quotes) and rejects every other text, a base URL, and a network
  that answers as told.
\<close>

definition demo_parse :: "string \<Rightarrow> jsval option" where
  "demo_parse =
     map_of
       [(''{data:{access_token:T1,refresh_token:R1}}'',
           JObj [(''data'', JObj [(''access_token'', JStr ''T1''), (''refresh_token'', JStr ''R1'')])]),
        (''{data:{access_token:T1}}'',
           JObj [(''data'', JObj [(''access_token'', JStr ''T1'')])]),
        (''{data:{id:1,email:a@b.com}}'',
           JObj [(''data'', JObj [(''id'', JStr ''1''), (''email'', JStr ''a@b.com'')])]),
        (''{errors:[{message:Invalid credentials}]}'',
           JObj [(''errors'', JArr [JObj [(''message'', JStr ''Invalid credentials'')]])]),
        (''{}'', JObj [])]"

definition demo_world ::
  "bool \<Rightarrow> (request list \<Rightarrow> request \<Rightarrow> fetch_result) \<Rightarrow> world" where
  "demo_world browser network =
     \<lparr>window_defined = browser, localStorage_throws = False,
      NEXT_PUBLIC_DIRECTUS_URL = Some ''https://cms.example.com/'',
      NEXT_PUBLIC_API_BASE_URL = None, NEXT_PUBLIC_API_KEY = None,
      JSON_parse = demo_parse, new_URL = (\<lambda>endpoint base. Some (base @ endpoint)),
      string_gt_zero = (\<lambda>s. False), net = network\<rparr>"

definition http :: "nat \<Rightarrow> string \<Rightarrow> string \<Rightarrow> string \<Rightarrow> fetch_result" where
  "http st txt ct b =
     Resolved \<lparr>status = st, statusText = txt, content_type = Some ct, body = Some b,
               bodyUsed = False\<rparr>"

definition always :: "fetch_result \<Rightarrow> request list \<Rightarrow> request \<Rightarrow> fetch_result" where
  "always r h q = r"

definition first_then ::
  "fetch_result \<Rightarrow> fetch_result \<Rightarrow> request list \<Rightarrow> request \<Rightarrow> fetch_result" where
  "first_then r1 r2 h q = (if h = [] then r1 else r2)"

definition stored :: "(string \<times> string) list \<Rightarrow> runtime" where
  "stored kvs = \<lparr>localStorage = map_of kvs, requests = []\<rparr>"

text \<open>A browser whose CMS answers every request with a user record.\<close>

definition browser_online :: world where
  "browser_online =
     demo_world True (always (http 200 ''OK'' ''application/json'' ''{data:{id:1,email:a@b.com}}''))"

definition both_tokens :: runtime where
  "both_tokens = stored [(access_key, ''T1''), (refresh_key, ''R1'')]"

definition credentials :: LoginCredentials where
  "credentials = \<lparr>email = ''a@b.com'', password = ''x''\<rparr>"

text \<open>A 500 answer whose body is an HTML page.\<close>

definition server_error_page :: response where
  "server_error_page =
     \<lparr>status = 500, statusText = ''Internal Server Error'', content_type = Some ''text/html'',
      body = Some ''<h1>Internal Server Error</h1>'', bodyUsed = False\<rparr>"

text \<open>Browsers whose network answers every request the same way: 401 with a plain-text
  body, 401 with a CMS error body, 403 with an empty JSON object, and 401 with an empty
  JSON object.\<close>

definition browser_401_text :: world where
  "browser_401_text =
     demo_world True (always (http 401 ''Unauthorized'' ''text/plain'' ''Unauthorized''))"

definition browser_unauthorized :: world where
  "browser_unauthorized =
     demo_world True (always (http 401 ''Unauthorized'' ''application/json''
       ''{errors:[{message:Invalid credentials}]}''))"

definition browser_forbidden :: world where
  "browser_forbidden = demo_world True (always (http 403 ''Forbidden'' ''application/json'' ''{}''))"

definition browser_refresh_rejected :: world where
  "browser_refresh_rejected =
     demo_world True (always (http 401 ''Unauthorized'' ''application/json'' ''{}''))"

text \<open>Browsers whose CMS accepts the login and then serves the user record: with both
  tokens in the login answer, with the access token only, and with both tokens but
  \<open>localStorage\<close> disabled.\<close>

definition browser_login_ok :: world where
  "browser_login_ok =
     demo_world True
       (first_then
          (http 200 ''OK'' ''application/json'' ''{data:{access_token:T1,refresh_token:R1}}'')
          (http 200 ''OK'' ''application/json'' ''{data:{id:1,email:a@b.com}}''))"

definition browser_access_only :: world where
  "browser_access_only =
     demo_world True
       (first_then (http 200 ''OK'' ''application/json'' ''{data:{access_token:T1}}'')
                   (http 200 ''OK'' ''application/json'' ''{data:{id:1,email:a@b.com}}''))"

definition browser_storage_disabled :: world where
  "browser_storage_disabled = browser_login_ok\<lparr>localStorage_throws := True\<rparr>"

section \<open>Unfolding and general facts\<close>

lemmas demo_defs = demo_world_def demo_parse_def http_def always_def first_then_def stored_def
  browser_online_def

lemmas client_defs = api_get_def api_post_def apiClient_def buildUrl_def getApiBaseUrl_def
  strip_trailing_slash_def getDefaultHeaders_def getStoredAuthToken_def fetch_def
  handleResponse_def response_json_def response_text_def unusable_def body_text_def ok_def

lemmas auth_defs = login_def login_try_def login_request_def store_tokens_def authUser_of_def
  rethrow_normalized_def extractErrorMessage_def instanceof_ApiError_def
  instanceof_not_callable_def new_Error_def read_member_def opt_member_def
  opt_index0_def getCurrentUser_def getCurrentUser_try_def refreshToken_def refreshToken_try_def
  isAuthenticated_def logout_def

lemmas store_defs = getAuthToken_def getRefreshToken_def setAuthToken_def setRefreshToken_def
  clearAuthTokens_def

text \<open>The \<open>instanceof\<close> test decides what the \<open>catch\<close> blocks throw.\<close>

lemma extractErrorMessage_throws: "extractErrorMessage w e = Inl instanceof_not_callable"
  by (simp add: extractErrorMessage_def instanceof_ApiError_def)

lemma rethrow_normalized_throws: "rethrow_normalized w e = instanceof_not_callable"
  by (simp add: rethrow_normalized_def extractErrorMessage_throws)

text \<open>The client wrapper reads \<open>localStorage\<close> and never writes it.\<close>

lemma apiClient_localStorage:
  "localStorage (snd (apiClient w endpoint meth payload s)) = localStorage s"
  by (simp add: apiClient_def fetch_def Let_def split: sum.splits fetch_result.splits prod.splits)

lemma api_get_localStorage:
  "api_get w endpoint s = (res, s') \<Longrightarrow> localStorage s' = localStorage s"
  using apiClient_localStorage [of w endpoint "''GET''" JUndefined s]
  by (simp add: api_get_def)

section \<open>Token store round trip\<close>

text \<open>
  Claim C10. In a browser with working storage the token store round-trips: after
  \<open>setAuthToken(t)\<close> the call \<open>getAuthToken()\<close> returns \<open>t\<close>, after \<open>setRefreshToken(t)\<close>
  the call \<open>getRefreshToken()\<close> returns \<open>t\<close>, and after \<open>clearAuthTokens()\<close> both getters
  return \<open>null\<close>.
\<close>

theorem token_store_roundtrip:
  assumes "window_defined w" and "\<not> localStorage_throws w"
  shows "getAuthToken w (setAuthToken w t s) = Some t
       \<and> getRefreshToken w (setRefreshToken w t s) = Some t
       \<and> getAuthToken w (clearAuthTokens w s) = None
       \<and> getRefreshToken w (clearAuthTokens w s) = None"
  using assms
  by (simp add: getAuthToken_def getRefreshToken_def setAuthToken_def setRefreshToken_def
      clearAuthTokens_def)

theorem token_store_roundtrip_witness:
  "window_defined browser_online \<and> \<not> localStorage_throws browser_online
   \<and> getAuthToken browser_online (setAuthToken browser_online ''T1'' (stored [])) = Some ''T1''
   \<and> getRefreshToken browser_online (setRefreshToken browser_online ''R1'' (stored []))
       = Some ''R1''
   \<and> getAuthToken browser_online
        (clearAuthTokens browser_online (stored [(access_key, ''T1''), (refresh_key, ''R1'')]))
       = None
   \<and> getRefreshToken browser_online
        (clearAuthTokens browser_online (stored [(access_key, ''T1''), (refresh_key, ''R1'')]))
       = None"
proof -
  have b: "window_defined browser_online" and k: "\<not> localStorage_throws browser_online"
    by (simp_all add: browser_online_def demo_world_def)
  from token_store_roundtrip [OF b k, of "''T1''" "stored []"]
       token_store_roundtrip [OF b k, of "''R1''" "stored []"]
       token_store_roundtrip [OF b k, of "''T1''"
         "stored [(access_key, ''T1''), (refresh_key, ''R1'')]"]
  show ?thesis using b k by simp
qed

section \<open>Logout\<close>

text \<open>
  Claim C7. Whatever the store held before, after \<open>logout\<close> both getters return
  \<open>null\<close>, no request has been sent, and a second \<open>logout\<close> changes nothing more. In a
  browser with working storage both keys are gone from \<open>localStorage\<close>.
\<close>

theorem logout_clears_both_idempotent:
  "getAuthToken w (logout w s) = None
   \<and> getRefreshToken w (logout w s) = None
   \<and> requests (logout w s) = requests s
   \<and> logout w (logout w s) = logout w s
   \<and> (window_defined w \<and> \<not> localStorage_throws w \<longrightarrow>
        localStorage (logout w s) access_key = None
        \<and> localStorage (logout w s) refresh_key = None)"
  by (simp add: logout_def clearAuthTokens_def getAuthToken_def getRefreshToken_def)

theorem logout_clears_both_idempotent_witness:
  "window_defined browser_online \<and> \<not> localStorage_throws browser_online
   \<and> localStorage (logout browser_online (stored [(access_key, ''T1''), (refresh_key, ''R1'')]))
        access_key = None
   \<and> localStorage (logout browser_online (stored [(access_key, ''T1''), (refresh_key, ''R1'')]))
        refresh_key = None
   \<and> requests (logout browser_online (stored [(access_key, ''T1''), (refresh_key, ''R1'')])) = []
   \<and> logout browser_online
        (logout browser_online (stored [(access_key, ''T1''), (refresh_key, ''R1'')]))
       = logout browser_online (stored [(access_key, ''T1''), (refresh_key, ''R1'')])"
proof -
  have b: "window_defined browser_online \<and> \<not> localStorage_throws browser_online"
    by (simp add: browser_online_def demo_world_def)
  have r: "requests (stored [(access_key, ''T1''), (refresh_key, ''R1'')]) = []"
    by (simp add: stored_def)
  from logout_clears_both_idempotent
         [of browser_online "stored [(access_key, ''T1''), (refresh_key, ''R1'')]"] b r
  show ?thesis by simp
qed

section \<open>Guards before the network\<close>

text \<open>
  Claim C8. When the store gives no access token, \<open>getCurrentUser\<close> returns \<open>null\<close> at
  once: the result is \<open>null\<close> and the state, the list of requests sent included, is the
  one it started from.
\<close>

theorem getCurrentUser_without_token:
  assumes "getAuthToken w s = None"
  shows "getCurrentUser w s = (Inr None, s) \<and> requests (snd (getCurrentUser w s)) = requests s"
  using assms by (simp add: getCurrentUser_def)

theorem getCurrentUser_without_token_witness:
  "getAuthToken browser_online (stored [(refresh_key, ''R1'')]) = None
   \<and> getCurrentUser browser_online (stored [(refresh_key, ''R1'')])
       = (Inr None, stored [(refresh_key, ''R1'')])
   \<and> requests (snd (getCurrentUser browser_online (stored [(refresh_key, ''R1'')]))) = []"
proof -
  have h: "getAuthToken browser_online (stored [(refresh_key, ''R1'')]) = None"
    by (simp add: getAuthToken_def browser_online_def demo_world_def stored_def)
  have r: "requests (stored [(refresh_key, ''R1'')]) = []"
    by (simp add: stored_def)
  from getCurrentUser_without_token [OF h] h r show ?thesis by simp
qed

text \<open>
  Claim C9. When the store gives no refresh token, \<open>refreshToken\<close> throws
  \<open>No refresh token available\<close> and the state, the list of requests sent included, is
  the one it started from.
\<close>

theorem refreshToken_without_token:
  assumes "getRefreshToken w s = None"
  shows "refreshToken w s = (Inl (Error ''No refresh token available''), s)
       \<and> requests (snd (refreshToken w s)) = requests s"
  using assms by (simp add: refreshToken_def)

theorem refreshToken_without_token_witness:
  "getRefreshToken browser_online (stored []) = None
   \<and> refreshToken browser_online (stored [])
       = (Inl (Error ''No refresh token available''), stored [])
   \<and> requests (snd (refreshToken browser_online (stored []))) = []"
proof -
  have h: "getRefreshToken browser_online (stored []) = None"
    by (simp add: getRefreshToken_def browser_online_def demo_world_def stored_def)
  have r: "requests (stored []) = []"
    by (simp add: stored_def)
  from refreshToken_without_token [OF h] h r show ?thesis by simp
qed

section \<open>Response handling\<close>

text \<open>What \<open>handleResponse\<close> does with a response whose body has not been read, case by
  case.\<close>

lemma handleResponse_error_json:
  assumes "\<not> ok r" and "\<not> bodyUsed r" and "JSON_parse w (body_text r) = Some d"
  shows "handleResponse w r =
           Inl (ApiError (''API Error: '' @ statusText r) (status r) (statusText r) d)"
  using assms by (simp add: handleResponse_def response_json_def unusable_def)

lemma handleResponse_error_text:
  assumes "\<not> ok r" and "\<not> bodyUsed r" and "body r = Some b" and "JSON_parse w b = None"
  shows "handleResponse w r = Inl body_already_read"
  using assms
  by (simp add: handleResponse_def response_json_def response_text_def unusable_def body_text_def)

lemma handleResponse_error_null_body:
  assumes "\<not> ok r" and "body r = None" and "JSON_parse w [] = None"
  shows "handleResponse w r =
           Inl (ApiError (''API Error: '' @ statusText r) (status r) (statusText r) (JStr []))"
  using assms
  by (simp add: handleResponse_def response_json_def response_text_def unusable_def body_text_def)

lemma handleResponse_ok_json:
  assumes "ok r" and "\<not> bodyUsed r" and "content_type r = Some ct" and "ct \<noteq> []"
    and "str_includes ct ''application/json''"
  shows "handleResponse w r =
           (case JSON_parse w (body_text r) of None \<Rightarrow> Inl not_valid_JSON | Some v \<Rightarrow> Inr v)"
  using assms by (simp add: handleResponse_def response_json_def unusable_def)

lemma handleResponse_ok_text:
  assumes "ok r" and "\<not> bodyUsed r"
    and "content_type r = None \<or> (\<exists>ct. content_type r = Some ct
           \<and> (ct = [] \<or> \<not> str_includes ct ''application/json''))"
  shows "handleResponse w r = Inr (JStr (body_text r))"
  using assms by (auto simp: handleResponse_def response_text_def unusable_def)

text \<open>
  Claim C4. For a non-2xx response the wrapper raises an \<open>ApiError\<close> with the status,
  the status text and the body parsed as JSON, falling back to the plain-text body when
  parsing fails; for a 2xx response it returns the parsed JSON when the content type is
  JSON and the raw text otherwise.

  The code attempts the fallback and loses it: \<open>response.json()\<close> has read the body
  when it fails, so the \<open>response.text()\<close> of the \<open>catch\<close> block rejects, and that
  rejection, not an \<open>ApiError\<close>, is what \<open>handleResponse\<close> throws. On a 500 answer
  with an HTML body:
\<close>

theorem handleResponse_text_fallback_lost:
  "handleResponse browser_online server_error_page = Inl body_already_read"
  by (simp add: server_error_page_def demo_defs client_defs)

section \<open>The current user\<close>

text \<open>Whatever fails in the \<open>try\<close> block of \<open>getCurrentUser\<close>, the \<open>catch\<close> block throws at
  its \<open>instanceof\<close> test: the call rejects and the store is as it was.\<close>

lemma getCurrentUser_try_localStorage:
  "localStorage (snd (getCurrentUser_try w s)) = localStorage s"
proof (cases "api_get w ''/users/me'' s")
  case (Pair res s1)
  then show ?thesis
    using api_get_localStorage [OF Pair]
    by (cases res) (simp_all add: getCurrentUser_try_def)
qed

lemma getCurrentUser_failure:
  assumes "truthy_opt (getAuthToken w s)" and "getCurrentUser_try w s = (Inl error, s1)"
  shows "getCurrentUser w s = (Inl instanceof_not_callable, s1)"
    and "localStorage s1 = localStorage s"
proof -
  show "getCurrentUser w s = (Inl instanceof_not_callable, s1)"
    using assms by (simp add: getCurrentUser_def instanceof_ApiError_def)
  show "localStorage s1 = localStorage s"
    using getCurrentUser_try_localStorage [of w s] assms(2) by simp
qed

text \<open>
  Claim C1. For every response of \<open>GET /users/me\<close> with status 401, \<open>getCurrentUser\<close>
  clears both tokens and returns \<open>null\<close> rather than propagating the error.

  The code attempts it with \<open>if (error instanceof ApiError && error.status === 401)
  clearAuthTokens()\<close> and \<open>return null\<close>, and reaches neither: the \<open>instanceof\<close> test
  throws, since \<open>ApiError\<close> is an interface. With both tokens stored and a 401 answer,
  with a CMS error body or with a plain-text body, one request is sent, the call
  rejects with that \<open>TypeError\<close>, and both tokens are still there:
\<close>

theorem getCurrentUser_401_rejects_keeps_tokens:
  "fst (getCurrentUser browser_unauthorized both_tokens) = Inl instanceof_not_callable
   \<and> fst (getCurrentUser browser_unauthorized both_tokens) \<noteq> Inr None
   \<and> length (requests (snd (getCurrentUser browser_unauthorized both_tokens))) = 1
   \<and> getAuthToken browser_unauthorized (snd (getCurrentUser browser_unauthorized both_tokens))
       = Some ''T1''
   \<and> getRefreshToken browser_unauthorized (snd (getCurrentUser browser_unauthorized both_tokens))
       = Some ''R1''
   \<and> fst (getCurrentUser browser_401_text both_tokens) = Inl instanceof_not_callable
   \<and> getAuthToken browser_401_text (snd (getCurrentUser browser_401_text both_tokens))
       = Some ''T1''
   \<and> getRefreshToken browser_401_text (snd (getCurrentUser browser_401_text both_tokens))
       = Some ''R1''"
  by (simp add: browser_unauthorized_def browser_401_text_def both_tokens_def demo_defs
      client_defs getCurrentUser_def getCurrentUser_try_def instanceof_ApiError_def store_defs)

section \<open>The pairing of the two tokens\<close>

text \<open>
  Claim C3 as stated: in every state of the store both tokens are present or both are
  absent, and a state with exactly one of them is treated as unauthenticated, by
  \<open>isAuthenticated\<close> in particular. It fails: a login whose answer carries an access
  token and no refresh token leaves the access token alone in the store, as does
  \<open>setAuthToken\<close> on an empty store, and \<open>isAuthenticated\<close> holds there.
\<close>

theorem partial_state_counterexample:
  "getAuthToken browser_access_only (snd (login browser_access_only credentials (stored [])))
     = Some ''T1''
   \<and> getRefreshToken browser_access_only (snd (login browser_access_only credentials (stored [])))
     = None
   \<and> isAuthenticated browser_access_only (snd (login browser_access_only credentials (stored [])))
   \<and> getRefreshToken browser_online (setAuthToken browser_online ''T1'' (stored [])) = None
   \<and> isAuthenticated browser_online (setAuthToken browser_online ''T1'' (stored []))"
  by (simp add: browser_access_only_def credentials_def demo_defs client_defs auth_defs store_defs)

text \<open>
  Claim C3, amended. The store keeps the two tokens under separate keys and does not
  pair them. A state without an access token is treated as unauthenticated whatever the
  refresh token: \<open>isAuthenticated\<close> is false and \<open>getCurrentUser\<close> returns \<open>null\<close> without
  a request. A state with an access token counts as authenticated for
  \<open>isAuthenticated\<close>, whose answer does not depend on the refresh token. After
  \<open>clearAuthTokens\<close> both tokens are absent.
\<close>

theorem unauthenticated_without_access_token:
  "(getAuthToken w s = None \<longrightarrow>
      \<not> isAuthenticated w s \<and> getCurrentUser w s = (Inr None, s))
   \<and> (getAuthToken w s = Some t \<longrightarrow> isAuthenticated w s)
   \<and> isAuthenticated w (s\<lparr>localStorage := (localStorage s)(refresh_key := r)\<rparr>)
       = isAuthenticated w s
   \<and> getAuthToken w (clearAuthTokens w s) = None
   \<and> getRefreshToken w (clearAuthTokens w s) = None"
  by (simp add: isAuthenticated_def getCurrentUser_def getAuthToken_def getRefreshToken_def
      clearAuthTokens_def)

theorem unauthenticated_without_access_token_witness:
  "getAuthToken browser_online (stored [(refresh_key, ''R1'')]) = None
   \<and> \<not> isAuthenticated browser_online (stored [(refresh_key, ''R1'')])
   \<and> getCurrentUser browser_online (stored [(refresh_key, ''R1'')])
       = (Inr None, stored [(refresh_key, ''R1'')])
   \<and> getAuthToken browser_online (stored [(access_key, ''T1'')]) = Some ''T1''
   \<and> isAuthenticated browser_online (stored [(access_key, ''T1'')])"
proof -
  have a: "getAuthToken browser_online (stored [(refresh_key, ''R1'')]) = None"
    by (simp add: getAuthToken_def demo_defs)
  have b: "getAuthToken browser_online (stored [(access_key, ''T1'')]) = Some ''T1''"
    by (simp add: getAuthToken_def demo_defs)
  from unauthenticated_without_access_token [of browser_online "stored [(refresh_key, ''R1'')]"]
       unauthenticated_without_access_token
         [of browser_online "stored [(access_key, ''T1'')]" "''T1''"] a b
  show ?thesis by simp
qed

section \<open>Login\<close>

text \<open>Whatever fails in the \<open>try\<close> block of \<open>login\<close>, the \<open>catch\<close> block calls
  \<open>extractErrorMessage\<close>, which throws at its \<open>instanceof\<close> test: that \<open>TypeError\<close> is
  what \<open>login\<close> throws, and no message is extracted.\<close>

lemma login_failure:
  assumes "login_try w c s = (Inl error, s')"
  shows "login w c s = (Inl instanceof_not_callable, s')"
  using assms by (simp add: login_def rethrow_normalized_throws)

text \<open>
  Claim C2. When a login fails with a CMS error body \<open>{errors: [{message: m}]}\<close>, the
  error \<open>login\<close> throws has message \<open>m\<close>; without a CMS message the message follows
  the status (401, 403, 404, 422, 500, otherwise the status text).

  \<open>extractErrorMessage\<close> is written to do this and never gets to it. When the login
  endpoint answers 401 with the body \<open>{errors: [{message: "Invalid credentials"}]}\<close>,
  the error \<open>login\<close> throws is the \<open>TypeError\<close> of the \<open>instanceof\<close> test and not
  \<open>Invalid credentials\<close>; when it answers 403 with an empty object, the error is that
  \<open>TypeError\<close> again and not a message for the status.
\<close>

theorem login_rejected_message_lost:
  "fst (login browser_unauthorized credentials (stored [])) = Inl instanceof_not_callable
   \<and> fst (login browser_unauthorized credentials (stored []))
       \<noteq> Inl (Error ''Invalid credentials'')
   \<and> fst (login browser_forbidden credentials (stored [])) = Inl instanceof_not_callable
   \<and> fst (login browser_forbidden credentials (stored [])) \<noteq> Inl (Error ''Access forbidden'')
   \<and> fst (login browser_forbidden credentials (stored [])) \<noteq> Inl (Error ''forbidden'')"
  by (simp add: browser_unauthorized_def browser_forbidden_def credentials_def demo_defs
      client_defs auth_defs store_defs)

text \<open>
  Claim C6 as stated: after every successful login with the answers of the scenario the
  store holds \<open>T1\<close> and \<open>R1\<close>. It fails in a browser whose \<open>localStorage\<close> throws:
  \<open>setAuthToken\<close> and \<open>setRefreshToken\<close> catch the exception and go on, the mocked
  \<open>/users/me\<close> answers, \<open>login\<close> returns the user, and the store holds nothing.
\<close>

theorem login_storage_disabled_counterexample:
  "fst (login browser_storage_disabled credentials (stored []))
     = Inr \<lparr>user_id = JStr ''1'', user_email = JStr ''a@b.com'', firstName = JUndefined,
            lastName = JUndefined, role = JUndefined, user_status = JUndefined\<rparr>
   \<and> getAuthToken browser_storage_disabled
        (snd (login browser_storage_disabled credentials (stored []))) = None
   \<and> getRefreshToken browser_storage_disabled
        (snd (login browser_storage_disabled credentials (stored []))) = None
   \<and> localStorage (snd (login browser_storage_disabled credentials (stored []))) access_key = None"
  by (simp add: browser_storage_disabled_def browser_login_ok_def credentials_def demo_defs
      client_defs auth_defs store_defs)

text \<open>
  Claim C6, amended. In a browser with working storage: when the login endpoint returns
  an object whose \<open>data\<close> holds the non-empty strings \<open>a\<close> and \<open>r\<close> as \<open>access_token\<close> and
  \<open>refresh_token\<close>, and the following \<open>GET /users/me\<close> returns an object whose \<open>data\<close>
  holds \<open>id\<close> and \<open>email\<close>, then \<open>login\<close> returns a user with that \<open>id\<close> and that
  \<open>email\<close>, and afterwards the store holds access token \<open>a\<close> and refresh token \<open>r\<close>.
\<close>

theorem login_stores_tokens_returns_user:
  assumes browser: "window_defined w" "\<not> localStorage_throws w"
    and post: "api_post w ''/auth/login'' (login_request c) s = (Inr (JObj reply), s1)"
    and tokens: "map_of reply ''data'' = Some (JObj tokens)"
      "map_of tokens ''access_token'' = Some (JStr a)" "a \<noteq> []"
      "map_of tokens ''refresh_token'' = Some (JStr r)" "r \<noteq> []"
    and get: "api_get w ''/users/me'' (setRefreshToken w r (setAuthToken w a s1))
              = (Inr (JObj me), s2)"
    and profile: "map_of me ''data'' = Some (JObj profile)"
      "map_of profile ''id'' = Some i" "map_of profile ''email'' = Some e"
  shows "login w c s =
           (Inr \<lparr>user_id = i, user_email = e,
                  firstName = get_prop (JObj profile) ''first_name'',
                  lastName = get_prop (JObj profile) ''last_name'',
                  role = get_prop (JObj profile) ''role'',
                  user_status = get_prop (JObj profile) ''status''\<rparr>, s2)
       \<and> getAuthToken w s2 = Some a \<and> getRefreshToken w s2 = Some r"
proof -
  let ?s' = "setRefreshToken w r (setAuthToken w a s1)"
  have st: "store_tokens w (JObj reply) s1 = Inr ?s'"
    using tokens by (simp add: store_tokens_def read_member_def opt_member_def)
  have user: "authUser_of (JObj me) =
           Inr \<lparr>user_id = i, user_email = e,
                  firstName = get_prop (JObj profile) ''first_name'',
                  lastName = get_prop (JObj profile) ''last_name'',
                  role = get_prop (JObj profile) ''role'',
                  user_status = get_prop (JObj profile) ''status''\<rparr>"
    using profile by (simp add: authUser_of_def read_member_def)
  have "login_try w c s = (authUser_of (JObj me), s2)"
    using post st get by (simp add: login_try_def)
  with user have 1: "login w c s =
           (Inr \<lparr>user_id = i, user_email = e,
                  firstName = get_prop (JObj profile) ''first_name'',
                  lastName = get_prop (JObj profile) ''last_name'',
                  role = get_prop (JObj profile) ''role'',
                  user_status = get_prop (JObj profile) ''status''\<rparr>, s2)"
    by (simp add: login_def)
  have "localStorage s2 = localStorage ?s'"
    using api_get_localStorage [OF get] .
  with browser have 2: "getAuthToken w s2 = Some a \<and> getRefreshToken w s2 = Some r"
    by (simp add: getAuthToken_def getRefreshToken_def setAuthToken_def setRefreshToken_def)
  from 1 2 show ?thesis by simp
qed

theorem login_stores_tokens_returns_user_witness:
  "window_defined browser_login_ok \<and> \<not> localStorage_throws browser_login_ok
   \<and> fst (api_post browser_login_ok ''/auth/login'' (login_request credentials) (stored []))
       = Inr (JObj [(''data'', JObj [(''access_token'', JStr ''T1''),
                                     (''refresh_token'', JStr ''R1'')])])
   \<and> fst (login browser_login_ok credentials (stored []))
       = Inr \<lparr>user_id = JStr ''1'', user_email = JStr ''a@b.com'', firstName = JUndefined,
              lastName = JUndefined, role = JUndefined, user_status = JUndefined\<rparr>
   \<and> getAuthToken browser_login_ok (snd (login browser_login_ok credentials (stored [])))
       = Some ''T1''
   \<and> getRefreshToken browser_login_ok (snd (login browser_login_ok credentials (stored [])))
       = Some ''R1''"
proof -
  let ?w = browser_login_ok
  let ?s1 = "snd (api_post ?w ''/auth/login'' (login_request credentials) (stored []))"
  let ?s' = "setRefreshToken ?w ''R1'' (setAuthToken ?w ''T1'' ?s1)"
  let ?s2 = "snd (api_get ?w ''/users/me'' ?s')"
  have b: "window_defined ?w" and k: "\<not> localStorage_throws ?w"
    by (simp_all add: browser_login_ok_def demo_world_def)
  have p1: "fst (api_post ?w ''/auth/login'' (login_request credentials) (stored []))
       = Inr (JObj [(''data'', JObj [(''access_token'', JStr ''T1''),
                                     (''refresh_token'', JStr ''R1'')])])"
    by (simp add: browser_login_ok_def credentials_def login_request_def demo_defs client_defs)
  then have post: "api_post ?w ''/auth/login'' (login_request credentials) (stored [])
       = (Inr (JObj [(''data'', JObj [(''access_token'', JStr ''T1''),
                                      (''refresh_token'', JStr ''R1'')])]), ?s1)"
    by (simp add: prod_eq_iff)
  have g1: "fst (api_get ?w ''/users/me'' ?s')
       = Inr (JObj [(''data'', JObj [(''id'', JStr ''1''), (''email'', JStr ''a@b.com'')])])"
    by (simp add: browser_login_ok_def credentials_def login_request_def demo_defs client_defs
        store_defs)
  then have get: "api_get ?w ''/users/me'' ?s'
       = (Inr (JObj [(''data'', JObj [(''id'', JStr ''1''), (''email'', JStr ''a@b.com'')])]), ?s2)"
    by (simp add: prod_eq_iff)
  note th = login_stores_tokens_returns_user [OF b k post _ _ _ _ _ get, of
      "[(''access_token'', JStr ''T1''), (''refresh_token'', JStr ''R1'')]"
      "[(''id'', JStr ''1''), (''email'', JStr ''a@b.com'')]" "JStr ''1''" "JStr ''a@b.com''"]
  have "login ?w credentials (stored []) =
           (Inr \<lparr>user_id = JStr ''1'', user_email = JStr ''a@b.com'',
                  firstName = JUndefined, lastName = JUndefined,
                  role = JUndefined, user_status = JUndefined\<rparr>, ?s2)
       \<and> getAuthToken ?w ?s2 = Some ''T1'' \<and> getRefreshToken ?w ?s2 = Some ''R1''"
    using th by simp
  with b k p1 show ?thesis by simp
qed

section \<open>Token refresh\<close>

text \<open>Once \<open>refreshToken\<close> has found a refresh token, every failure passes through the
  \<open>catch\<close> block: both keys are removed, and the error thrown is the \<open>TypeError\<close> of the
  \<open>instanceof\<close> test in \<open>extractErrorMessage\<close>.\<close>

lemma refreshToken_failure_after_guard:
  assumes "getRefreshToken w s = Some t" and "t \<noteq> []" and "refreshToken w s = (Inl e, s')"
  shows "e = instanceof_not_callable"
    and "localStorage s' access_key = None" and "localStorage s' refresh_key = None"
proof -
  from assms(1) have env: "window_defined w" "\<not> localStorage_throws w"
    by (auto simp: getRefreshToken_def split: if_splits)
  obtain res s1 where run: "refreshToken_try w t s = (res, s1)"
    by (cases "refreshToken_try w t s") auto
  with assms obtain err where "res = Inl err"
    and e: "e = rethrow_normalized w err" and s': "s' = clearAuthTokens w s1"
    by (cases res) (auto simp: refreshToken_def)
  from e show "e = instanceof_not_callable"
    by (simp add: rethrow_normalized_throws)
  from s' env show "localStorage s' access_key = None" "localStorage s' refresh_key = None"
    by (simp_all add: clearAuthTokens_def)
qed

text \<open>
  Claim C5. Whenever \<open>refreshToken\<close> fails, for whatever reason (missing configuration,
  network failure, non-2xx answer or any other error), both tokens are cleared from the
  store before the normalized error is thrown again.

  The \<open>catch\<close> block clears the tokens and then calls \<open>extractErrorMessage\<close> to
  normalize the error, which throws at its \<open>instanceof\<close> test. With both tokens stored
  and a refresh endpoint that answers 401 with an empty object, both keys are removed,
  and the error thrown is that \<open>TypeError\<close>, not \<open>Failed to refresh token\<close>:
\<close>

theorem refreshToken_rejected_error_lost:
  "getRefreshToken browser_refresh_rejected both_tokens = Some ''R1''
   \<and> fst (refreshToken browser_refresh_rejected both_tokens) = Inl instanceof_not_callable
   \<and> fst (refreshToken browser_refresh_rejected both_tokens)
       \<noteq> Inl (Error ''Failed to refresh token'')
   \<and> length (requests (snd (refreshToken browser_refresh_rejected both_tokens))) = 1
   \<and> localStorage (snd (refreshToken browser_refresh_rejected both_tokens)) access_key = None
   \<and> localStorage (snd (refreshToken browser_refresh_rejected both_tokens)) refresh_key = None"
  by (simp add: browser_refresh_rejected_def both_tokens_def demo_defs client_defs auth_defs
      store_defs)

end
